theory Spec2Isabelle
  imports Complex_Main "HOL-Library.Word"
begin

section \<open>Data model\<close>

text \<open>
  The physics system of the engine (\<^verbatim>\<open>src/engine/physics_system.cpp\<close>) moves every
  active entity by its velocity, one pixel at a time, against a collision checker.

  The headers that declare the geometry types are not part of the sources at hand, so the
  types below are modelled from the spec: a position is an integer 2D point, a bounding
  box is a rectangle given by its top left corner and its size, a velocity is a 2D vector
  of real numbers. The C++ type \<^verbatim>\<open>float\<close> is modelled by \<^typ>\<open>real\<close>: the rounding of
  binary32 arithmetic, infinities and NaN are outside the model. Positions are unbounded
  integers: signed overflow of \<^verbatim>\<open>int\<close> is undefined in C++ and outside the model.
\<close>

type_synonym float = real

type_synonym int16 = "16 word"

record 'a Point =
  px :: 'a
  py :: 'a

type_synonym Vector = "int Point"

type_synonym WorldPosition = "int Point"

record Size =
  width :: int
  height :: int

record BoundingBox =
  topLeft :: Vector
  size_box :: Size

record Physical =
  mVelocity :: "float Point"
  mGravityAffected :: bool
  mCanStepUpStairs :: bool

text \<open>
  Modelled from the spec: the collision checker (\<^verbatim>\<open>engine/collision_checker.hpp\<close>) is
  not part of the sources at hand. It is an oracle of four read-only boolean queries over
  a world space box; the physics system holds a pointer to a constant checker.
\<close>

record CollisionChecker =
  isTouchingRightWall :: "BoundingBox \<Rightarrow> bool"
  isTouchingLeftWall :: "BoundingBox \<Rightarrow> bool"
  isTouchingCeiling :: "BoundingBox \<Rightarrow> bool"
  isOnSolidGround :: "BoundingBox \<Rightarrow> bool"

text \<open>
  An entity of the entity manager: each component is present or absent; \<open>active\<close> and
  \<open>collidedWithWorld\<close> are tag components, which carry no data.
\<close>

record Entity =
  physical :: "Physical option"
  position :: "WorldPosition option"
  boundingBox :: "BoundingBox option"
  active :: bool
  collidedWithWorld :: bool

section \<open>Geometry helpers\<close>

text \<open>
  \<open>offsetBox b dx dy\<close> is the box \<open>b\<close> after \<^verbatim>\<open>b.topLeft.x += dx; b.topLeft.y += dy\<close>;
  it is also the rectangle's \<^verbatim>\<open>operator+\<close> with the vector \<open>(dx, dy)\<close>.
\<close>

definition offsetBox :: "BoundingBox \<Rightarrow> int \<Rightarrow> int \<Rightarrow> BoundingBox" where
  "offsetBox b dx dy =
     b\<lparr>topLeft := \<lparr>px = px (topLeft b) + dx, py = py (topLeft b) + dy\<rparr>\<rparr>"

text \<open>\<open>offsetPos p dx dy\<close> is the position \<open>p\<close> after \<^verbatim>\<open>p.x += dx; p.y += dy\<close>.\<close>

definition offsetPos :: "Vector \<Rightarrow> int \<Rightarrow> int \<Rightarrow> Vector" where
  "offsetPos p dx dy = \<lparr>px = px p + dx, py = py p + dy\<rparr>"

definition toWorldSpace :: "BoundingBox \<Rightarrow> Vector \<Rightarrow> BoundingBox" where
  "toWorldSpace bbox entityPosition =
     offsetBox bbox (px entityPosition)
       (py entityPosition - (height (size_box bbox) - 1))"

text \<open>
  \<^verbatim>\<open>static_cast<int16_t>\<close> of a \<^verbatim>\<open>float\<close> drops the fractional part. C++ leaves the
  conversion undefined when the truncated value does not fit the target type: the model
  returns \<open>None\<close> there.
\<close>

definition static_cast_int16 :: "float \<Rightarrow> int16 option" where
  "static_cast_int16 v =
     (let t = (if 0 \<le> v then \<lfloor>v\<rfloor> else \<lceil>v\<rceil>)
      in if - 32768 \<le> t \<and> t \<le> 32767 then Some (word_of_int t) else None)"

section \<open>Gravity\<close>

text \<open>
  The constant \<open>0.56\<close> is the real number here and the binary32 value \<^verbatim>\<open>0.56f\<close> in
  the source, and the source rounds the sum. The tests \<open>v = 0\<close> and \<open>v < 2\<close> and the
  branches are those of the source; no statement below depends on which inputs make the
  rounded sum cross a given value.
\<close>

definition applyGravity :: "CollisionChecker \<Rightarrow> BoundingBox \<Rightarrow> float \<Rightarrow> float" where
  "applyGravity ck bbox currentVelocity =
     (if currentVelocity = 0 then
        (if isOnSolidGround ck bbox then currentVelocity else 1)
      else
        (if currentVelocity < 2 then currentVelocity + 0.56 else 2))"

section \<open>Horizontal movement\<close>

text \<open>
  The \<^verbatim>\<open>for\<close> loop of \<^verbatim>\<open>applyHorizontalMovement\<close>, by recursion on the number of
  iterations that remain; the loop variables are \<open>movingBbox\<close> and \<open>newPosition\<close>.
  \<^verbatim>\<open>break\<close> returns the position reached, \<^verbatim>\<open>continue\<close> is the recursive call.
\<close>

fun horizontalLoop ::
  "CollisionChecker \<Rightarrow> bool \<Rightarrow> bool \<Rightarrow> nat \<Rightarrow> BoundingBox \<Rightarrow> Vector \<Rightarrow> Vector" where
  "horizontalLoop ck movingRight allowStairStepping 0 movingBbox newPosition = newPosition"
| "horizontalLoop ck movingRight allowStairStepping (Suc n) movingBbox newPosition =
     (let move = (if movingRight then 1 else - 1);
          isTouching = (if movingRight then isTouchingRightWall ck movingBbox
                        else isTouchingLeftWall ck movingBbox)
      in if isTouching then
           (if allowStairStepping then
              (let stepUpBbox = offsetBox movingBbox 0 (- 1);
                   collisionAfterStairStep =
                     (if movingRight then isTouchingRightWall ck stepUpBbox
                      else isTouchingLeftWall ck stepUpBbox)
               in if \<not> collisionAfterStairStep then
                    (if isOnSolidGround ck (offsetBox stepUpBbox move 0) then
                       horizontalLoop ck movingRight allowStairStepping n
                         (offsetBox movingBbox move (- 1)) (offsetPos newPosition move (- 1))
                     else newPosition)
                  else newPosition)
            else newPosition)
         else horizontalLoop ck movingRight allowStairStepping n
                (offsetBox movingBbox move 0) (offsetPos newPosition move 0))"

definition applyHorizontalMovement ::
  "CollisionChecker \<Rightarrow> BoundingBox \<Rightarrow> Vector \<Rightarrow> int16 \<Rightarrow> bool \<Rightarrow> Vector" where
  "applyHorizontalMovement ck bbox currentPosition movementX allowStairStepping =
     horizontalLoop ck (sint movementX > 0) allowStairStepping (nat \<bar>sint movementX\<bar>)
       bbox currentPosition"

section \<open>Vertical movement\<close>

text \<open>
  The loop of \<^verbatim>\<open>applyVerticalMovement\<close>; the \<^verbatim>\<open>return\<close> inside the loop ends it with
  the position reached and the new velocity.
\<close>

fun verticalLoop ::
  "CollisionChecker \<Rightarrow> bool \<Rightarrow> bool \<Rightarrow> float \<Rightarrow> nat \<Rightarrow> BoundingBox \<Rightarrow> Vector
     \<Rightarrow> Vector \<times> float" where
  "verticalLoop ck movingDown beginFallingOnHittingCeiling currentVelocity 0
     movingBbox newPosition = (newPosition, currentVelocity)"
| "verticalLoop ck movingDown beginFallingOnHittingCeiling currentVelocity (Suc n)
     movingBbox newPosition =
     (let isTouching = (if movingDown then isOnSolidGround ck movingBbox
                        else isTouchingCeiling ck movingBbox)
      in if isTouching then
           (if movingDown \<or> \<not> beginFallingOnHittingCeiling then (newPosition, 0)
            else (newPosition, 1))
         else
           (let move = (if movingDown then 1 else - 1)
            in verticalLoop ck movingDown beginFallingOnHittingCeiling currentVelocity n
                 (offsetBox movingBbox 0 move) (offsetPos newPosition 0 move)))"

definition applyVerticalMovement ::
  "CollisionChecker \<Rightarrow> BoundingBox \<Rightarrow> Vector \<Rightarrow> float \<Rightarrow> int16 \<Rightarrow> bool
     \<Rightarrow> Vector \<times> float" where
  "applyVerticalMovement ck bbox currentPosition currentVelocity movementY
     beginFallingOnHittingCeiling =
     verticalLoop ck (sint movementY > 0) beginFallingOnHittingCeiling currentVelocity
       (nat \<bar>sint movementY\<bar>) bbox currentPosition"

section \<open>The simulation step\<close>

text \<open>
  The body of the lambda of \<^verbatim>\<open>PhysicsSystem::update\<close>, for one entity that has the
  four components. It returns the updated physical component, the updated position and
  the value given to \<^verbatim>\<open>setTag<CollidedWithWorld>\<close>; the bounding box is passed by
  constant reference. \<open>None\<close> is an undefined conversion of a velocity.
\<close>

definition updateEntity ::
  "CollisionChecker \<Rightarrow> Physical \<Rightarrow> WorldPosition \<Rightarrow> BoundingBox
     \<Rightarrow> (Physical \<times> WorldPosition \<times> bool) option" where
  "updateEntity ck phys pos collisionRect =
     (let originalPosition = pos
      in case static_cast_int16 (px (mVelocity phys)) of
           None \<Rightarrow> None
         | Some movementX \<Rightarrow>
             (let pos1 = (if movementX \<noteq> 0 then
                            applyHorizontalMovement ck (toWorldSpace collisionRect pos) pos
                              movementX (mCanStepUpStairs phys)
                          else pos);
                  bbox = toWorldSpace collisionRect pos1;
                  vy1 = (if mGravityAffected phys then
                           applyGravity ck bbox (py (mVelocity phys))
                         else py (mVelocity phys))
              in case static_cast_int16 vy1 of
                   None \<Rightarrow> None
                 | Some movementY \<Rightarrow>
                     (let (pos2, vy2) =
                            (if movementY \<noteq> 0 then
                               applyVerticalMovement ck bbox pos1 vy1 movementY
                                 (mGravityAffected phys)
                             else (pos1, vy1));
                          collisionOccured =
                            (pos2 \<noteq> offsetPos originalPosition (sint movementX) (sint movementY))
                      in Some (phys\<lparr>mVelocity := (mVelocity phys)\<lparr>py := vy2\<rparr>\<rparr>,
                               pos2, collisionOccured))))"

text \<open>
  Modelled from the spec: \<^verbatim>\<open>setTag\<close> (\<^verbatim>\<open>engine/entity_tools.hpp\<close>) is not part of the
  sources at hand; it adds the tag when the flag is true and removes it otherwise.

  \<open>updateOne\<close> is what \<^verbatim>\<open>es.each<Physical, WorldPosition, BoundingBox, Active>\<close> does
  with one entity: the lambda runs on an entity that has all four components, any other
  entity is left as it is.
\<close>

definition updateOne :: "CollisionChecker \<Rightarrow> Entity \<Rightarrow> Entity option" where
  "updateOne ck e =
     (case (physical e, position e, boundingBox e) of
        (Some phys, Some pos, Some collisionRect) \<Rightarrow>
          (if active e then
             (case updateEntity ck phys pos collisionRect of
                None \<Rightarrow> None
              | Some (phys', pos', collisionOccured) \<Rightarrow>
                  Some (e\<lparr>physical := Some phys', position := Some pos',
                          collidedWithWorld := collisionOccured\<rparr>))
           else Some e)
      | _ \<Rightarrow> Some e)"

text \<open>The entity manager is the list of its entities.\<close>

fun update :: "CollisionChecker \<Rightarrow> Entity list \<Rightarrow> Entity list option" where
  "update ck [] = Some []"
| "update ck (e # es) =
     (case updateOne ck e of
        None \<Rightarrow> None
      | Some e' \<Rightarrow> (case update ck es of None \<Rightarrow> None | Some es' \<Rightarrow> Some (e' # es')))"

section \<open>Contact and single advances\<close>

text \<open>
  Names for what the loops ask the collision checker. \<open>leadingEdgeContact\<close> is the
  wall query of the horizontal loop (right wall when moving right, left wall otherwise),
  \<open>verticalContact\<close> the query of the vertical loop (ground when moving down, ceiling
  otherwise). \<open>stairStepAccepted\<close> is the condition under which the horizontal loop
  steps up instead of stopping at a box in contact. \<open>advanceX\<close> and \<open>advanceY\<close>
  relate a box to the box one iteration later, when the loop goes on.
\<close>

definition leadingEdgeContact :: "CollisionChecker \<Rightarrow> bool \<Rightarrow> BoundingBox \<Rightarrow> bool" where
  "leadingEdgeContact ck movingRight b =
     (if movingRight then isTouchingRightWall ck b else isTouchingLeftWall ck b)"

definition stairStepAccepted :: "CollisionChecker \<Rightarrow> bool \<Rightarrow> bool \<Rightarrow> BoundingBox \<Rightarrow> bool" where
  "stairStepAccepted ck movingRight allow b =
     (allow \<and> \<not> leadingEdgeContact ck movingRight (offsetBox b 0 (- 1))
      \<and> isOnSolidGround ck (offsetBox b (if movingRight then 1 else - 1) (- 1)))"

definition advanceX :: "CollisionChecker \<Rightarrow> bool \<Rightarrow> bool \<Rightarrow> BoundingBox \<Rightarrow> BoundingBox \<Rightarrow> bool" where
  "advanceX ck movingRight allow b b' =
     (if leadingEdgeContact ck movingRight b
      then stairStepAccepted ck movingRight allow b
           \<and> b' = offsetBox b (if movingRight then 1 else - 1) (- 1)
      else b' = offsetBox b (if movingRight then 1 else - 1) 0)"

definition verticalContact :: "CollisionChecker \<Rightarrow> bool \<Rightarrow> BoundingBox \<Rightarrow> bool" where
  "verticalContact ck movingDown b =
     (if movingDown then isOnSolidGround ck b else isTouchingCeiling ck b)"

definition advanceY :: "CollisionChecker \<Rightarrow> bool \<Rightarrow> BoundingBox \<Rightarrow> BoundingBox \<Rightarrow> bool" where
  "advanceY ck movingDown b b' =
     (\<not> verticalContact ck movingDown b
      \<and> b' = offsetBox b 0 (if movingDown then 1 else - 1))"

section \<open>Example worlds\<close>

text \<open>
  Concrete collision checkers and a concrete box, on which the theorems below are
  instantiated. \<open>openSpace\<close> has no solid geometry at all. \<open>room\<close> has a floor whose
  top is the row \<open>y = 11\<close>, a ceiling whose bottom is the row \<open>y = 7\<close>, a wall on the
  right from the column \<open>x = 13\<close> and a wall on the left up to the column \<open>x = 7\<close>.
  \<open>stairs\<close> has a floor whose top is the row \<open>y = 11\<close> left of the column \<open>x = 13\<close>
  and the row \<open>y = 10\<close> from that column on: a step of one pixel.
\<close>

definition openSpace :: CollisionChecker where
  "openSpace =
     \<lparr>isTouchingRightWall = (\<lambda>b. False), isTouchingLeftWall = (\<lambda>b. False),
      isTouchingCeiling = (\<lambda>b. False), isOnSolidGround = (\<lambda>b. False)\<rparr>"

definition room :: CollisionChecker where
  "room =
     \<lparr>isTouchingRightWall = (\<lambda>b. 13 \<le> px (topLeft b) + width (size_box b)),
      isTouchingLeftWall = (\<lambda>b. px (topLeft b) \<le> 8),
      isTouchingCeiling = (\<lambda>b. py (topLeft b) \<le> 8),
      isOnSolidGround = (\<lambda>b. 11 \<le> py (topLeft b) + height (size_box b))\<rparr>"

definition stairs :: CollisionChecker where
  "stairs =
     \<lparr>isTouchingRightWall =
        (\<lambda>b. px (topLeft b) + width (size_box b) = 13
              \<and> 11 \<le> py (topLeft b) + height (size_box b)),
      isTouchingLeftWall = (\<lambda>b. False),
      isTouchingCeiling = (\<lambda>b. False),
      isOnSolidGround =
        (\<lambda>b. if 14 \<le> px (topLeft b) + width (size_box b)
              then 10 \<le> py (topLeft b) + height (size_box b)
              else 11 \<le> py (topLeft b) + height (size_box b))\<rparr>"

definition unitBox :: BoundingBox where
  "unitBox = \<lparr>topLeft = \<lparr>px = 0, py = 0\<rparr>, size_box = \<lparr>width = 1, height = 1\<rparr>\<rparr>"

text \<open>
  Entities for the examples. \<open>walker\<close> stands on the floor of \<open>room\<close> and moves right
  by 3 pixels per tick; \<open>sleeper\<close> rests on the floor and still carries the collision
  tag of an earlier tick. \<open>jumper\<close> and \<open>floater\<close> are physical components that move
  up, the first affected by gravity, the second not.
\<close>

definition walker :: Entity where
  "walker =
     \<lparr>physical = Some \<lparr>mVelocity = \<lparr>px = 3, py = 0\<rparr>, mGravityAffected = True,
                        mCanStepUpStairs = False\<rparr>,
      position = Some \<lparr>px = 10, py = 10\<rparr>, boundingBox = Some unitBox,
      active = True, collidedWithWorld = False\<rparr>"

definition sleeper :: Entity where
  "sleeper =
     \<lparr>physical = Some \<lparr>mVelocity = \<lparr>px = 0, py = 0\<rparr>, mGravityAffected = True,
                        mCanStepUpStairs = False\<rparr>,
      position = Some \<lparr>px = 10, py = 10\<rparr>, boundingBox = Some unitBox,
      active = True, collidedWithWorld = True\<rparr>"

definition jumper :: Physical where
  "jumper = \<lparr>mVelocity = \<lparr>px = 0, py = - 3\<rparr>, mGravityAffected = True,
              mCanStepUpStairs = False\<rparr>"

definition floater :: Physical where
  "floater = \<lparr>mVelocity = \<lparr>px = 0, py = - 2\<rparr>, mGravityAffected = False,
               mCanStepUpStairs = False\<rparr>"

section \<open>Conversion of velocities: properties\<close>


lemma static_cast_int16_defined:
  "- 32769 < v \<Longrightarrow> v < 32768 \<Longrightarrow> \<exists>m. static_cast_int16 v = Some m"
  by (auto simp: static_cast_int16_def Let_def floor_le_iff le_ceiling_iff
      le_floor_iff ceiling_le_iff)

lemma static_cast_int16_zero: "static_cast_int16 0 = Some 0"
  by (simp add: static_cast_int16_def)

section \<open>Boxes and positions: properties\<close>

lemma offsetBox_zero [simp]: "offsetBox b 0 0 = b"
  by (simp add: offsetBox_def)

lemma offsetBox_offsetBox [simp]:
  "offsetBox (offsetBox b dx dy) ex ey = offsetBox b (dx + ex) (dy + ey)"
  by (simp add: offsetBox_def)

lemma offsetPos_zero [simp]: "offsetPos p 0 0 = p"
  by (simp add: offsetPos_def)

lemma offsetPos_offsetPos [simp]:
  "offsetPos (offsetPos p dx dy) ex ey = offsetPos p (dx + ex) (dy + ey)"
  by (simp add: offsetPos_def)

lemma px_offsetPos [simp]: "px (offsetPos p dx dy) = px p + dx"
  and py_offsetPos [simp]: "py (offsetPos p dx dy) = py p + dy"
  by (simp_all add: offsetPos_def)

lemma toWorldSpace_offsetPos:
  "toWorldSpace rect (offsetPos p dx dy) = offsetBox (toWorldSpace rect p) dx dy"
  by (simp add: toWorldSpace_def offsetBox_def)

lemma offsetPos_diff: "offsetPos p (px q - px p) (py q - py p) = q"
  by (simp add: offsetPos_def)

lemma toWorldSpace_result:
  "toWorldSpace rect q = offsetBox (toWorldSpace rect p) (px q - px p) (py q - py p)"
  using toWorldSpace_offsetPos [of rect p "px q - px p" "py q - py p"]
  by (simp add: offsetPos_diff)

section \<open>Horizontal movement: properties\<close>

text \<open>One iteration of the horizontal loop, by the three outcomes of its body.\<close>

lemma horizontalLoop_clear:
  "\<not> leadingEdgeContact ck r b \<Longrightarrow>
   horizontalLoop ck r a (Suc n) b p =
     horizontalLoop ck r a n (offsetBox b (if r then 1 else - 1) 0)
       (offsetPos p (if r then 1 else - 1) 0)"
  by (simp add: leadingEdgeContact_def Let_def)

lemma horizontalLoop_stair:
  "leadingEdgeContact ck r b \<Longrightarrow> stairStepAccepted ck r a b \<Longrightarrow>
   horizontalLoop ck r a (Suc n) b p =
     horizontalLoop ck r a n (offsetBox b (if r then 1 else - 1) (- 1))
       (offsetPos p (if r then 1 else - 1) (- 1))"
  by (simp add: leadingEdgeContact_def stairStepAccepted_def Let_def)

lemma horizontalLoop_stop:
  "leadingEdgeContact ck r b \<Longrightarrow> \<not> stairStepAccepted ck r a b \<Longrightarrow>
   horizontalLoop ck r a (Suc n) b p = p"
  by (auto simp: leadingEdgeContact_def stairStepAccepted_def Let_def)

declare horizontalLoop.simps(2) [simp del]

lemma horizontalLoop_bounds:
  "py (horizontalLoop ck r a n b p) \<le> py p \<and>
   py p - int n \<le> py (horizontalLoop ck r a n b p) \<and>
   (if r then px p \<le> px (horizontalLoop ck r a n b p) \<and>
             px (horizontalLoop ck r a n b p) \<le> px p + int n
    else px p - int n \<le> px (horizontalLoop ck r a n b p) \<and>
         px (horizontalLoop ck r a n b p) \<le> px p)"
proof (induction n arbitrary: b p)
  case 0
  show ?case by simp
next
  case (Suc n)
  consider (clear) "\<not> leadingEdgeContact ck r b"
    | (stair) "leadingEdgeContact ck r b" "stairStepAccepted ck r a b"
    | (stop) "leadingEdgeContact ck r b" "\<not> stairStepAccepted ck r a b"
    by blast
  then show ?case
  proof cases
    case clear
    show ?thesis
      using Suc.IH [of "offsetBox b (if r then 1 else - 1) 0" "offsetPos p (if r then 1 else - 1) 0"]
        horizontalLoop_clear [OF clear, of a n p]
      by (cases r) simp_all
  next
    case stair
    show ?thesis
      using Suc.IH [of "offsetBox b (if r then 1 else - 1) (- 1)" "offsetPos p (if r then 1 else - 1) (- 1)"]
        horizontalLoop_stair [OF stair, of n p]
      by (cases r) simp_all
  next
    case stop
    show ?thesis
      using horizontalLoop_stop [OF stop, of n p] by (cases r) simp_all
  qed
qed

lemma horizontalLoop_clear_prefix:
  "(\<forall>j<k. \<not> leadingEdgeContact ck r (offsetBox b (int j * (if r then 1 else - 1)) 0)) \<Longrightarrow>
   horizontalLoop ck r a (k + n) b p =
     horizontalLoop ck r a n (offsetBox b (int k * (if r then 1 else - 1)) 0)
       (offsetPos p (int k * (if r then 1 else - 1)) 0)"
proof (induction k arbitrary: b p)
  case 0
  show ?case by simp
next
  case (Suc k)
  have c0: "\<not> leadingEdgeContact ck r b"
    using Suc.prems [rule_format, of 0] by simp
  have rest: "\<forall>j<k. \<not> leadingEdgeContact ck r
      (offsetBox (offsetBox b (if r then 1 else - 1) 0) (int j * (if r then 1 else - 1)) 0)"
  proof (intro allI impI)
    fix j assume "j < k"
    then show "\<not> leadingEdgeContact ck r
      (offsetBox (offsetBox b (if r then 1 else - 1) 0) (int j * (if r then 1 else - 1)) 0)"
      using Suc.prems [rule_format, of "Suc j"] by (simp add: algebra_simps)
  qed
  show ?case
    using Suc.IH [OF rest, of "offsetPos p (if r then 1 else - 1) 0"]
    by (simp add: horizontalLoop_clear [OF c0] algebra_simps)
qed

lemma horizontalLoop_path:
  "(advanceX ck r a)\<^sup>*\<^sup>* b
     (offsetBox b (px (horizontalLoop ck r a n b p) - px p)
        (py (horizontalLoop ck r a n b p) - py p))"
proof (induction n arbitrary: b p)
  case 0
  show ?case by simp
next
  case (Suc n)
  consider (clear) "\<not> leadingEdgeContact ck r b"
    | (stair) "leadingEdgeContact ck r b" "stairStepAccepted ck r a b"
    | (stop) "leadingEdgeContact ck r b" "\<not> stairStepAccepted ck r a b"
    by blast
  then show ?case
  proof cases
    case clear
    have "advanceX ck r a b (offsetBox b (if r then 1 else - 1) 0)"
      using clear by (simp add: advanceX_def)
    then show ?thesis
      using Suc.IH [of "offsetBox b (if r then 1 else - 1) 0" "offsetPos p (if r then 1 else - 1) 0"]
      by (simp add: horizontalLoop_clear [OF clear] converse_rtranclp_into_rtranclp algebra_simps)
  next
    case stair
    have "advanceX ck r a b (offsetBox b (if r then 1 else - 1) (- 1))"
      using stair by (simp add: advanceX_def)
    then show ?thesis
      using Suc.IH [of "offsetBox b (if r then 1 else - 1) (- 1)" "offsetPos p (if r then 1 else - 1) (- 1)"]
      by (simp add: horizontalLoop_stair [OF stair] converse_rtranclp_into_rtranclp algebra_simps)
  next
    case stop
    show ?thesis
      by (simp add: horizontalLoop_stop [OF stop])
  qed
qed

lemma horizontalLoop_first_contact:
  assumes "k < n"
    and "\<forall>j<k. \<not> leadingEdgeContact ck r (offsetBox b (int j * (if r then 1 else - 1)) 0)"
    and "leadingEdgeContact ck r (offsetBox b (int k * (if r then 1 else - 1)) 0)"
  shows "horizontalLoop ck r a n b p =
     (if stairStepAccepted ck r a (offsetBox b (int k * (if r then 1 else - 1)) 0)
      then horizontalLoop ck r a (n - Suc k)
             (offsetBox b (int (Suc k) * (if r then 1 else - 1)) (- 1))
             (offsetPos p (int (Suc k) * (if r then 1 else - 1)) (- 1))
      else offsetPos p (int k * (if r then 1 else - 1)) 0)"
proof -
  from assms(1) obtain m where "n = Suc (k + m)"
    by (auto dest: less_imp_Suc_add)
  then have n: "n = k + Suc m" by simp
  show ?thesis
  proof (cases "stairStepAccepted ck r a (offsetBox b (int k * (if r then 1 else - 1)) 0)")
    case True
    show ?thesis
      unfolding n horizontalLoop_clear_prefix [OF assms(2)]
      using True by (simp add: horizontalLoop_stair [OF assms(3) True] algebra_simps)
  next
    case False
    show ?thesis
      unfolding n horizontalLoop_clear_prefix [OF assms(2)]
      using False by (simp add: horizontalLoop_stop [OF assms(3) False])
  qed
qed

section \<open>Vertical movement: properties\<close>

text \<open>One iteration of the vertical loop, by the two outcomes of its body.\<close>

lemma verticalLoop_clear:
  "\<not> verticalContact ck d b \<Longrightarrow>
   verticalLoop ck d f v (Suc n) b p =
     verticalLoop ck d f v n (offsetBox b 0 (if d then 1 else - 1))
       (offsetPos p 0 (if d then 1 else - 1))"
  by (simp add: verticalContact_def Let_def)


lemma verticalLoop_stop:
  "verticalContact ck d b \<Longrightarrow>
   verticalLoop ck d f v (Suc n) b p = (p, if d \<or> \<not> f then 0 else 1)"
  by (simp add: verticalContact_def Let_def)


declare verticalLoop.simps(2) [simp del]


lemma verticalLoop_clear_prefix:
  "(\<forall>j<k. \<not> verticalContact ck d (offsetBox b 0 (int j * (if d then 1 else - 1)))) \<Longrightarrow>
   verticalLoop ck d f v (k + n) b p =
     verticalLoop ck d f v n (offsetBox b 0 (int k * (if d then 1 else - 1)))
       (offsetPos p 0 (int k * (if d then 1 else - 1)))"
proof (induction k arbitrary: b p)
  case 0
  show ?case by simp
next
  case (Suc k)
  have c0: "\<not> verticalContact ck d b"
    using Suc.prems [rule_format, of 0] by simp
  have rest: "\<forall>j<k. \<not> verticalContact ck d
      (offsetBox (offsetBox b 0 (if d then 1 else - 1)) 0 (int j * (if d then 1 else - 1)))"
  proof (intro allI impI)
    fix j assume "j < k"
    then show "\<not> verticalContact ck d
      (offsetBox (offsetBox b 0 (if d then 1 else - 1)) 0 (int j * (if d then 1 else - 1)))"
      using Suc.prems [rule_format, of "Suc j"] by (simp add: algebra_simps)
  qed
  show ?case
    using Suc.IH [OF rest, of "offsetPos p 0 (if d then 1 else - 1)"]
    by (simp add: verticalLoop_clear [OF c0] algebra_simps)
qed


lemma verticalLoop_first_contact:
  assumes "k < n"
    and "\<forall>j<k. \<not> verticalContact ck d (offsetBox b 0 (int j * (if d then 1 else - 1)))"
    and "verticalContact ck d (offsetBox b 0 (int k * (if d then 1 else - 1)))"
  shows "verticalLoop ck d f v n b p =
     (offsetPos p 0 (int k * (if d then 1 else - 1)), if d \<or> \<not> f then 0 else 1)"
proof -
  from assms(1) obtain m where "n = Suc (k + m)"
    by (auto dest: less_imp_Suc_add)
  then have n: "n = k + Suc m" by simp
  show ?thesis
    unfolding n verticalLoop_clear_prefix [OF assms(2)]
    by (rule verticalLoop_stop [OF assms(3)])
qed


lemma verticalLoop_no_contact:
  assumes "\<forall>j<n. \<not> verticalContact ck d (offsetBox b 0 (int j * (if d then 1 else - 1)))"
  shows "verticalLoop ck d f v n b p = (offsetPos p 0 (int n * (if d then 1 else - 1)), v)"
  using verticalLoop_clear_prefix [OF assms, of f v 0 p] by simp


lemma verticalLoop_some_contact:
  assumes "k < n"
    and "verticalContact ck d (offsetBox b 0 (int k * (if d then 1 else - 1)))"
  shows "snd (verticalLoop ck d f v n b p) = (if d \<or> \<not> f then 0 else 1)"
proof -
  define P where "P i = verticalContact ck d (offsetBox b 0 (int i * (if d then 1 else - 1)))" for i
  have "P k" using assms(2) by (simp add: P_def)
  define k0 where "k0 = (LEAST i. P i)"
  have "P k0" unfolding k0_def using \<open>P k\<close> by (rule LeastI)
  have "k0 \<le> k" unfolding k0_def using \<open>P k\<close> by (rule Least_le)
  have "\<forall>j<k0. \<not> P j" unfolding k0_def using not_less_Least by blast
  then show ?thesis
    using verticalLoop_first_contact [of k0 n ck d b f v p] \<open>P k0\<close> \<open>k0 \<le> k\<close> assms(1)
    by (simp add: P_def)
qed


lemma verticalLoop_path:
  "(advanceY ck d)\<^sup>*\<^sup>* b
     (offsetBox b (px (fst (verticalLoop ck d f v n b p)) - px p)
        (py (fst (verticalLoop ck d f v n b p)) - py p))"
proof (induction n arbitrary: b p)
  case 0
  show ?case by simp
next
  case (Suc n)
  show ?case
  proof (cases "verticalContact ck d b")
    case True
    show ?thesis by (simp add: verticalLoop_stop [OF True])
  next
    case False
    have "advanceY ck d b (offsetBox b 0 (if d then 1 else - 1))"
      using False by (simp add: advanceY_def)
    then show ?thesis
      using Suc.IH [of "offsetBox b 0 (if d then 1 else - 1)" "offsetPos p 0 (if d then 1 else - 1)"]
      by (simp add: verticalLoop_clear [OF False] converse_rtranclp_into_rtranclp algebra_simps)
  qed
qed

section \<open>The simulation step: properties\<close>

lemma updateEntity_Some:
  fixes ck phys pos rect stepsX stepsY
  defines "posH \<equiv> (if stepsX \<noteq> 0 then
                      applyHorizontalMovement ck (toWorldSpace rect pos) pos stepsX
                        (mCanStepUpStairs phys)
                    else pos)"
  defines "vyG \<equiv> (if mGravityAffected phys then
                     applyGravity ck (toWorldSpace rect posH) (py (mVelocity phys))
                   else py (mVelocity phys))"
  defines "V \<equiv> (if stepsY \<noteq> 0 then
                   applyVerticalMovement ck (toWorldSpace rect posH) posH vyG stepsY
                     (mGravityAffected phys)
                 else (posH, vyG))"
  assumes "static_cast_int16 (px (mVelocity phys)) = Some stepsX"
    and "static_cast_int16 vyG = Some stepsY"
  shows "updateEntity ck phys pos rect =
     Some (phys\<lparr>mVelocity := (mVelocity phys)\<lparr>py := snd V\<rparr>\<rparr>, fst V,
           fst V \<noteq> offsetPos pos (sint stepsX) (sint stepsY))"
  using assms(4,5) unfolding updateEntity_def posH_def vyG_def V_def
  by (simp add: Let_def split: prod.splits)

lemma point_neq_iff:
  "(q \<noteq> offsetPos p dx dy) = ((px q - px p, py q - py p) \<noteq> (dx, dy))"
  for p q :: Vector
  by (cases p, cases q) (auto simp: offsetPos_def)

lemma updateOne_processed:
  assumes "physical e = Some phys" "position e = Some pos" "boundingBox e = Some rect"
    and "active e"
  shows "updateOne ck e =
     (case updateEntity ck phys pos rect of
        None \<Rightarrow> None
      | Some (phys', pos', c) \<Rightarrow>
          Some (e\<lparr>physical := Some phys', position := Some pos', collidedWithWorld := c\<rparr>))"
  using assms by (simp add: updateOne_def)

lemma updateOne_not_processed:
  assumes "physical e = None \<or> position e = None \<or> boundingBox e = None \<or> \<not> active e"
  shows "updateOne ck e = Some e"
  using assms by (auto simp: updateOne_def split: option.splits)

lemma updateEntity_frame:
  assumes "updateEntity ck phys pos rect = Some (phys', pos', c)"
  shows "px (mVelocity phys') = px (mVelocity phys) \<and>
         mGravityAffected phys' = mGravityAffected phys \<and>
         mCanStepUpStairs phys' = mCanStepUpStairs phys"
  using assms unfolding updateEntity_def
  by (auto simp: Let_def split: option.splits prod.splits)

lemma updateOne_frame:
  assumes "updateOne ck e = Some e'"
  shows "boundingBox e' = boundingBox e \<and> active e' = active e \<and>
         map_option (\<lambda>p. px (mVelocity p)) (physical e') =
           map_option (\<lambda>p. px (mVelocity p)) (physical e) \<and>
         map_option mGravityAffected (physical e') = map_option mGravityAffected (physical e) \<and>
         map_option mCanStepUpStairs (physical e') = map_option mCanStepUpStairs (physical e) \<and>
         (position e' = None \<longleftrightarrow> position e = None) \<and>
         (physical e = None \<or> position e = None \<or> boundingBox e = None \<or> \<not> active e
            \<longrightarrow> e' = e)"
proof (cases "physical e = None \<or> position e = None \<or> boundingBox e = None \<or> \<not> active e")
  case True
  then show ?thesis
    using assms by (simp add: updateOne_not_processed [OF True])
next
  case False
  then obtain phys pos rect where c: "physical e = Some phys" "position e = Some pos"
    "boundingBox e = Some rect" "active e"
    by auto
  show ?thesis
    using assms updateEntity_frame [of ck phys pos rect] c
    by (auto simp: updateOne_processed [OF c] split: option.splits)
qed

lemma horizontalLoop_3:
  "horizontalLoop ck r a 3 b p = horizontalLoop ck r a (Suc (Suc (Suc 0))) b p"
  by (simp only: numeral_3_eq_3)

lemma verticalLoop_2:
  "verticalLoop ck d f v 2 b p = verticalLoop ck d f v (Suc (Suc 0)) b p"
  by (simp only: numeral_2_eq_2)

lemmas example_defs = walker_def sleeper_def jumper_def floater_def room_def unitBox_def
  updateOne_def updateEntity_def static_cast_int16_def applyHorizontalMovement_def
  applyVerticalMovement_def applyGravity_def toWorldSpace_def offsetBox_def offsetPos_def
  horizontalLoop.simps verticalLoop.simps horizontalLoop_3 verticalLoop_2 Let_def

section \<open>Gravity: properties\<close>

text \<open>
  C1. The gravity model returns the velocity 0 unchanged when the velocity is exactly 0 and
  the box is on solid ground, 1.0 when the velocity is exactly 0 and the box is not on
  solid ground, the velocity plus 0.56 when it is nonzero and less than 2.0, and exactly
  2.0 when it is nonzero and at least 2.0.
\<close>

theorem applyGravity_cases:
  "applyGravity ck bbox v =
     (if v = 0 \<and> isOnSolidGround ck bbox then 0
      else if v = 0 then 1
      else if v < 2 then v + 0.56
      else 2)"
  by (simp add: applyGravity_def)




section \<open>The resolvers: claims\<close>

text \<open>
  C10. The horizontal resolver never moves the entity downward: the returned \<open>y\<close> is at
  most the input \<open>y\<close>, and it is lower by at most one pixel per iteration. The returned
  \<open>x\<close> differs from the input \<open>x\<close> by at most \<open>|stepsX|\<close> pixels, in the direction of
  the sign of \<open>stepsX\<close> or not at all.
\<close>

theorem applyHorizontalMovement_displacement:
  fixes ck bbox pos stepsX allow
  defines "r \<equiv> applyHorizontalMovement ck bbox pos stepsX allow"
  shows "py r \<le> py pos \<and> py pos - py r \<le> \<bar>sint stepsX\<bar> \<and>
         \<bar>px r - px pos\<bar> \<le> \<bar>sint stepsX\<bar> \<and> 0 \<le> sgn (sint stepsX) * (px r - px pos)"
proof (cases "0 < sint stepsX")
  case True
  then show ?thesis
    using horizontalLoop_bounds [of ck True allow "nat \<bar>sint stepsX\<bar>" bbox pos]
    by (simp add: r_def applyHorizontalMovement_def)
next
  case False
  then show ?thesis
    using horizontalLoop_bounds [of ck False allow "nat \<bar>sint stepsX\<bar>" bbox pos]
    by (cases "sint stepsX = 0") (simp_all add: r_def applyHorizontalMovement_def sgn_if)
qed

text \<open>
  C5. \<open>horizontalLoop\<close> is the loop of the horizontal resolver at any of its states
  (iterations that remain, box and position reached). When the first contact on the
  leading edge comes after \<open>k\<close> clear pixels, the step up is taken only if stair stepping
  is allowed, the box raised by one pixel is clear on the leading edge and the raised box
  advanced by one pixel is on solid ground; the position then changes by \<open>(move, -1)\<close>
  and one iteration is used up. In every other case of contact the result is the position
  after the \<open>k\<close> clear pixels, and the iterations that remain are dropped.
\<close>

theorem horizontalLoop_contact:
  fixes ck movingRight allow n movingBbox newPosition k
  defines "move \<equiv> (if movingRight then 1 else - 1)"
  defines "contactBox \<equiv> offsetBox movingBbox (int k * move) 0"
  assumes "k < n"
    and "\<forall>j<k. \<not> leadingEdgeContact ck movingRight (offsetBox movingBbox (int j * move) 0)"
    and "leadingEdgeContact ck movingRight contactBox"
  shows "horizontalLoop ck movingRight allow n movingBbox newPosition =
     (if allow \<and> \<not> leadingEdgeContact ck movingRight (offsetBox contactBox 0 (- 1))
         \<and> isOnSolidGround ck (offsetBox contactBox move (- 1))
      then horizontalLoop ck movingRight allow (n - Suc k)
             (offsetBox contactBox move (- 1))
             (offsetPos newPosition (int k * move + move) (- 1))
      else offsetPos newPosition (int k * move) 0)"
  using horizontalLoop_first_contact [of k n ck movingRight movingBbox allow newPosition] assms(3-5)
  unfolding move_def contactBox_def
  by (simp add: stairStepAccepted_def algebra_simps)

theorem horizontalLoop_contact_witness:
  "(2::nat) < 4 \<and>
   \<not> leadingEdgeContact stairs True (toWorldSpace unitBox \<lparr>px = 10, py = 10\<rparr>) \<and>
   \<not> leadingEdgeContact stairs True (toWorldSpace unitBox \<lparr>px = 11, py = 10\<rparr>) \<and>
   leadingEdgeContact stairs True (toWorldSpace unitBox \<lparr>px = 12, py = 10\<rparr>) \<and>
   horizontalLoop stairs True True 4 (toWorldSpace unitBox \<lparr>px = 10, py = 10\<rparr>)
     \<lparr>px = 10, py = 10\<rparr> = \<lparr>px = 14, py = 9\<rparr> \<and>
   horizontalLoop stairs True False 4 (toWorldSpace unitBox \<lparr>px = 10, py = 10\<rparr>)
     \<lparr>px = 10, py = 10\<rparr> = \<lparr>px = 12, py = 10\<rparr>"
  using horizontalLoop_contact [of 2 4 stairs True "toWorldSpace unitBox \<lparr>px = 10, py = 10\<rparr>"
      True "\<lparr>px = 10, py = 10\<rparr>"]
    horizontalLoop_contact [of 2 4 stairs True "toWorldSpace unitBox \<lparr>px = 10, py = 10\<rparr>"
      False "\<lparr>px = 10, py = 10\<rparr>"]
  by (simp add: leadingEdgeContact_def stairs_def toWorldSpace_def unitBox_def offsetBox_def
      offsetPos_def eval_nat_numeral less_Suc_eq horizontalLoop.simps)

text \<open>
  C3 as stated: the resolvers never return a position whose world box the collision
  checker reports as blocked on the side being moved toward, unless a stair step was
  accepted. They do whenever they stop on contact. In \<open>room\<close>, three pixels to the right
  from \<open>(10, 10)\<close> without stair stepping end at \<open>(12, 10)\<close>, where the box touches
  the right wall; two pixels down from \<open>(10, 9)\<close> end at \<open>(10, 10)\<close>, where the box is
  on solid ground.
\<close>

theorem resolver_stops_on_blocked_box_counterexample:
  "applyHorizontalMovement room (toWorldSpace unitBox \<lparr>px = 10, py = 10\<rparr>)
     \<lparr>px = 10, py = 10\<rparr> 3 False = \<lparr>px = 12, py = 10\<rparr> \<and>
   isTouchingRightWall room (toWorldSpace unitBox \<lparr>px = 12, py = 10\<rparr>) \<and>
   applyVerticalMovement room (toWorldSpace unitBox \<lparr>px = 10, py = 9\<rparr>)
     \<lparr>px = 10, py = 9\<rparr> 2 2 True = (\<lparr>px = 10, py = 10\<rparr>, 0) \<and>
   isOnSolidGround room (toWorldSpace unitBox \<lparr>px = 10, py = 10\<rparr>)"
  by (simp add: applyHorizontalMovement_def applyVerticalMovement_def room_def
      toWorldSpace_def unitBox_def offsetBox_def offsetPos_def eval_nat_numeral
      horizontalLoop.simps verticalLoop.simps)

text \<open>
  C3, amended. The world box of the position a resolver returns is reached from the
  world box of the input position by single advances: each advance leaves a box that the
  collision checker reports as clear on the side being moved toward, or is an accepted
  stair step of the horizontal resolver. (The box that is returned may itself be reported
  as blocked: that is where a clipped movement stops.)
\<close>

theorem resolvers_advance_from_clear_boxes:
  "(advanceX ck (0 < sint stepsX) allow)\<^sup>*\<^sup>* (toWorldSpace rect pos)
     (toWorldSpace rect
        (applyHorizontalMovement ck (toWorldSpace rect pos) pos stepsX allow)) \<and>
   (advanceY ck (0 < sint stepsY))\<^sup>*\<^sup>* (toWorldSpace rect pos)
     (toWorldSpace rect
        (fst (applyVerticalMovement ck (toWorldSpace rect pos) pos v stepsY flag)))"
proof
  show "(advanceX ck (0 < sint stepsX) allow)\<^sup>*\<^sup>* (toWorldSpace rect pos)
     (toWorldSpace rect
        (applyHorizontalMovement ck (toWorldSpace rect pos) pos stepsX allow))"
    unfolding applyHorizontalMovement_def
    by (subst toWorldSpace_result [of rect _ pos]) (rule horizontalLoop_path)
  show "(advanceY ck (0 < sint stepsY))\<^sup>*\<^sup>* (toWorldSpace rect pos)
     (toWorldSpace rect
        (fst (applyVerticalMovement ck (toWorldSpace rect pos) pos v stepsY flag)))"
    unfolding applyVerticalMovement_def
    by (subst toWorldSpace_result [of rect _ pos]) (rule verticalLoop_path)
qed

theorem resolvers_advance_from_clear_boxes_witness:
  "(advanceX room True False)\<^sup>*\<^sup>* (toWorldSpace unitBox \<lparr>px = 10, py = 10\<rparr>)
     (toWorldSpace unitBox \<lparr>px = 12, py = 10\<rparr>) \<and>
   (advanceY room True)\<^sup>*\<^sup>* (toWorldSpace unitBox \<lparr>px = 10, py = 10\<rparr>)
     (toWorldSpace unitBox \<lparr>px = 10, py = 10\<rparr>)"
proof -
  have h: "applyHorizontalMovement room (toWorldSpace unitBox \<lparr>px = 10, py = 10\<rparr>)
     \<lparr>px = 10, py = 10\<rparr> 3 False = \<lparr>px = 12, py = 10\<rparr>"
    by (simp add: applyHorizontalMovement_def room_def
      toWorldSpace_def unitBox_def offsetBox_def offsetPos_def eval_nat_numeral
      horizontalLoop.simps)
  have v: "applyVerticalMovement room (toWorldSpace unitBox \<lparr>px = 10, py = 10\<rparr>)
     \<lparr>px = 10, py = 10\<rparr> 2 2 True = (\<lparr>px = 10, py = 10\<rparr>, 0)"
    by (simp add: applyVerticalMovement_def room_def
      toWorldSpace_def unitBox_def offsetBox_def offsetPos_def eval_nat_numeral
      verticalLoop.simps)
  show ?thesis
    using resolvers_advance_from_clear_boxes [of room 3 False unitBox "\<lparr>px = 10, py = 10\<rparr>" 2 2 True]
    by (simp add: h v)
qed

text \<open>
  C6. The vertical resolver: when the first contact (ground when moving down, ceiling when
  moving up) comes in iteration \<open>k\<close>, it returns the position after \<open>k\<close> pixels, with
  velocity 0.0 when moving down or when the flag is false, and with velocity 1.0 when
  moving up with the flag true. When no iteration finds contact, it returns the position
  after all \<open>|stepsY|\<close> pixels and the input velocity.
\<close>

theorem applyVerticalMovement_outcome:
  fixes ck bbox pos v stepsY flag
  defines "down \<equiv> 0 < sint stepsY"
  defines "move \<equiv> (if 0 < sint stepsY then 1 else - 1)"
  shows "(\<forall>k. k < nat \<bar>sint stepsY\<bar>
            \<and> (\<forall>j<k. \<not> verticalContact ck down (offsetBox bbox 0 (int j * move)))
            \<and> verticalContact ck down (offsetBox bbox 0 (int k * move)) \<longrightarrow>
            applyVerticalMovement ck bbox pos v stepsY flag =
              (offsetPos pos 0 (int k * move), if down \<or> \<not> flag then 0 else 1)) \<and>
         ((\<forall>j < nat \<bar>sint stepsY\<bar>. \<not> verticalContact ck down (offsetBox bbox 0 (int j * move))) \<longrightarrow>
            applyVerticalMovement ck bbox pos v stepsY flag =
              (offsetPos pos 0 (sint stepsY), v))"
proof (intro conjI allI impI)
  fix k
  assume "k < nat \<bar>sint stepsY\<bar>
            \<and> (\<forall>j<k. \<not> verticalContact ck down (offsetBox bbox 0 (int j * move)))
            \<and> verticalContact ck down (offsetBox bbox 0 (int k * move))"
  then show "applyVerticalMovement ck bbox pos v stepsY flag =
              (offsetPos pos 0 (int k * move), if down \<or> \<not> flag then 0 else 1)"
    unfolding applyVerticalMovement_def down_def move_def
    using verticalLoop_first_contact [of k "nat \<bar>sint stepsY\<bar>" ck "0 < sint stepsY" bbox flag v pos]
    by simp
next
  assume a: "\<forall>j < nat \<bar>sint stepsY\<bar>. \<not> verticalContact ck down (offsetBox bbox 0 (int j * move))"
  have "int (nat \<bar>sint stepsY\<bar>) * move = sint stepsY"
    by (simp add: move_def)
  then show "applyVerticalMovement ck bbox pos v stepsY flag = (offsetPos pos 0 (sint stepsY), v)"
    unfolding applyVerticalMovement_def
    using verticalLoop_no_contact [of "nat \<bar>sint stepsY\<bar>" ck "0 < sint stepsY" bbox flag v pos] a
    unfolding down_def move_def by simp
qed

theorem applyVerticalMovement_outcome_witness:
  "\<not> verticalContact room True (toWorldSpace unitBox \<lparr>px = 10, py = 9\<rparr>) \<and>
   verticalContact room True (toWorldSpace unitBox \<lparr>px = 10, py = 10\<rparr>) \<and>
   applyVerticalMovement room (toWorldSpace unitBox \<lparr>px = 10, py = 9\<rparr>)
     \<lparr>px = 10, py = 9\<rparr> 2 2 True = (\<lparr>px = 10, py = 10\<rparr>, 0) \<and>
   \<not> verticalContact room False (toWorldSpace unitBox \<lparr>px = 10, py = 9\<rparr>) \<and>
   verticalContact room False (toWorldSpace unitBox \<lparr>px = 10, py = 8\<rparr>) \<and>
   applyVerticalMovement room (toWorldSpace unitBox \<lparr>px = 10, py = 9\<rparr>)
     \<lparr>px = 10, py = 9\<rparr> (- 2) (- 2) True = (\<lparr>px = 10, py = 8\<rparr>, 1) \<and>
   applyVerticalMovement room (toWorldSpace unitBox \<lparr>px = 10, py = 9\<rparr>)
     \<lparr>px = 10, py = 9\<rparr> (- 2) (- 2) False = (\<lparr>px = 10, py = 8\<rparr>, 0) \<and>
   \<not> verticalContact openSpace True (toWorldSpace unitBox \<lparr>px = 10, py = 9\<rparr>) \<and>
   \<not> verticalContact openSpace True (toWorldSpace unitBox \<lparr>px = 10, py = 10\<rparr>) \<and>
   applyVerticalMovement openSpace (toWorldSpace unitBox \<lparr>px = 10, py = 9\<rparr>)
     \<lparr>px = 10, py = 9\<rparr> 2 2 True = (\<lparr>px = 10, py = 11\<rparr>, 2)"
  using applyVerticalMovement_outcome [where ck = room and stepsY = 2 and v = 2
      and bbox = "toWorldSpace unitBox \<lparr>px = 10, py = 9\<rparr>"
      and pos = "\<lparr>px = 10, py = 9\<rparr>" and flag = True]
    applyVerticalMovement_outcome [where ck = room and stepsY = "- 2" and v = "- 2"
      and bbox = "toWorldSpace unitBox \<lparr>px = 10, py = 9\<rparr>"
      and pos = "\<lparr>px = 10, py = 9\<rparr>" and flag = True]
    applyVerticalMovement_outcome [where ck = room and stepsY = "- 2" and v = "- 2"
      and bbox = "toWorldSpace unitBox \<lparr>px = 10, py = 9\<rparr>"
      and pos = "\<lparr>px = 10, py = 9\<rparr>" and flag = False]
    applyVerticalMovement_outcome [where ck = openSpace and stepsY = 2 and v = 2
      and bbox = "toWorldSpace unitBox \<lparr>px = 10, py = 9\<rparr>"
      and pos = "\<lparr>px = 10, py = 9\<rparr>" and flag = True]
  by (simp add: applyVerticalMovement_def verticalContact_def room_def openSpace_def
      toWorldSpace_def unitBox_def offsetBox_def offsetPos_def eval_nat_numeral
      verticalLoop.simps)

section \<open>The simulation step: claims\<close>

text \<open>
  C2. For an entity that is processed, the \<open>CollidedWithWorld\<close> tag is present after the
  tick if and only if the displacement of the position over the tick differs from
  \<open>(stepsX, stepsY)\<close>, where \<open>stepsX\<close> is \<open>velocity.x\<close> truncated before the horizontal
  movement and \<open>stepsY\<close> is \<open>velocity.y\<close> truncated after gravity was applied.
\<close>

theorem collidedWithWorld_iff_displaced:
  fixes ck e phys pos rect stepsX stepsY
  defines "posH \<equiv> (if stepsX \<noteq> 0 then
                      applyHorizontalMovement ck (toWorldSpace rect pos) pos stepsX
                        (mCanStepUpStairs phys)
                    else pos)"
  defines "vyG \<equiv> (if mGravityAffected phys then
                     applyGravity ck (toWorldSpace rect posH) (py (mVelocity phys))
                   else py (mVelocity phys))"
  assumes "physical e = Some phys" and "position e = Some pos"
    and "boundingBox e = Some rect" and "active e"
    and "static_cast_int16 (px (mVelocity phys)) = Some stepsX"
    and "static_cast_int16 vyG = Some stepsY"
  shows "\<exists>e' pos'. updateOne ck e = Some e' \<and> position e' = Some pos' \<and>
           (collidedWithWorld e' \<longleftrightarrow>
              (px pos' - px pos, py pos' - py pos) \<noteq> (sint stepsX, sint stepsY))"
  using updateEntity_Some [of phys stepsX ck rect pos stepsY] assms(7,8)
  unfolding posH_def vyG_def
  by (simp add: updateOne_processed [OF assms(3-6)] point_neq_iff)

theorem collidedWithWorld_iff_displaced_witness:
  "updateOne room walker =
     Some (walker\<lparr>position := Some \<lparr>px = 12, py = 10\<rparr>, collidedWithWorld := True\<rparr>) \<and>
   (\<exists>e' pos'. updateOne room walker = Some e' \<and> position e' = Some pos' \<and>
      (collidedWithWorld e' \<longleftrightarrow> (px pos' - 10, py pos' - 10) \<noteq> (sint (3 :: int16), sint (0 :: int16))))"
proof
  show "updateOne room walker =
     Some (walker\<lparr>position := Some \<lparr>px = 12, py = 10\<rparr>, collidedWithWorld := True\<rparr>)"
    by (simp add: example_defs)
  show "\<exists>e' pos'. updateOne room walker = Some e' \<and> position e' = Some pos' \<and>
      (collidedWithWorld e' \<longleftrightarrow> (px pos' - 10, py pos' - 10) \<noteq> (sint (3 :: int16), sint (0 :: int16)))"
    using collidedWithWorld_iff_displaced [where ck = room and e = walker
        and phys = "\<lparr>mVelocity = \<lparr>px = 3, py = 0\<rparr>, mGravityAffected = True,
                        mCanStepUpStairs = False\<rparr>"
        and pos = "\<lparr>px = 10, py = 10\<rparr>" and rect = unitBox and stepsX = 3 and stepsY = 0]
    by (simp add: example_defs)
qed

text \<open>
  C7. For an entity with velocity exactly \<open>(0, 0)\<close> whose world box is on solid ground,
  one tick changes neither position nor velocity (nor any other component), and the
  \<open>CollidedWithWorld\<close> tag is absent afterwards.
\<close>

theorem resting_entity_unchanged:
  assumes "physical e = Some phys" and "position e = Some pos"
    and "boundingBox e = Some rect" and "active e"
    and "px (mVelocity phys) = 0" and "py (mVelocity phys) = 0"
    and "isOnSolidGround ck (toWorldSpace rect pos)"
  shows "updateOne ck e = Some (e\<lparr>collidedWithWorld := False\<rparr>)"
proof -
  have v: "(mVelocity phys)\<lparr>py := 0\<rparr> = mVelocity phys"
    using assms(6) by (cases "mVelocity phys") simp
  have u: "updateEntity ck phys pos rect = Some (phys, pos, False)"
    using updateEntity_Some [of phys 0 ck rect pos 0] assms(5-7)
    by (simp add: static_cast_int16_zero applyGravity_def v offsetPos_def)
  have "e\<lparr>physical := Some phys, position := Some pos, collidedWithWorld := False\<rparr> =
        e\<lparr>collidedWithWorld := False\<rparr>"
    using assms(1,2) by (cases e) simp
  then show ?thesis
    by (simp add: updateOne_processed [OF assms(1-4)] u)
qed

theorem resting_entity_unchanged_witness:
  "isOnSolidGround room (toWorldSpace unitBox \<lparr>px = 10, py = 10\<rparr>) \<and>
   collidedWithWorld sleeper \<and>
   updateOne room sleeper = Some (sleeper\<lparr>collidedWithWorld := False\<rparr>)"
  using resting_entity_unchanged [where ck = room and e = sleeper
      and phys = "\<lparr>mVelocity = \<lparr>px = 0, py = 0\<rparr>, mGravityAffected = True,
                      mCanStepUpStairs = False\<rparr>"
      and pos = "\<lparr>px = 10, py = 10\<rparr>" and rect = unitBox]
  by (simp add: sleeper_def room_def toWorldSpace_def unitBox_def offsetBox_def)

text \<open>
  C8. One tick leaves, for every entity, the bounding box, the \<open>Active\<close> tag, \<open>velocity.x\<close>
  and the two traits \<open>gravityAffected\<close> and \<open>canStepUpStairs\<close> as they were, adds or
  removes no position, and leaves an entity that is not processed entirely as it was:
  only the position, \<open>velocity.y\<close> and the \<open>CollidedWithWorld\<close> tag of a processed entity
  can change. The collision checker is a constant argument of the step, which returns
  nothing but the entities.
\<close>

theorem update_frame:
  assumes "update ck es = Some es'"
  shows "list_all2
     (\<lambda>e e'. boundingBox e' = boundingBox e \<and> active e' = active e \<and>
         map_option (\<lambda>p. px (mVelocity p)) (physical e') =
           map_option (\<lambda>p. px (mVelocity p)) (physical e) \<and>
         map_option mGravityAffected (physical e') = map_option mGravityAffected (physical e) \<and>
         map_option mCanStepUpStairs (physical e') = map_option mCanStepUpStairs (physical e) \<and>
         (position e' = None \<longleftrightarrow> position e = None) \<and>
         (physical e = None \<or> position e = None \<or> boundingBox e = None \<or> \<not> active e
            \<longrightarrow> e' = e))
     es es'"
  using assms
proof (induction es arbitrary: es')
  case Nil
  then show ?case by simp
next
  case (Cons e es)
  from Cons.prems obtain e1 es1 where u: "updateOne ck e = Some e1" "update ck es = Some es1"
    and r: "es' = e1 # es1"
    by (auto split: option.splits)
  show ?case
    unfolding r using updateOne_frame [OF u(1)] Cons.IH [OF u(2)] by simp
qed

theorem update_frame_witness:
  "update room [walker, walker\<lparr>active := False\<rparr>] =
     Some [walker\<lparr>position := Some \<lparr>px = 12, py = 10\<rparr>, collidedWithWorld := True\<rparr>,
           walker\<lparr>active := False\<rparr>] \<and>
   list_all2
     (\<lambda>e e'. boundingBox e' = boundingBox e \<and> active e' = active e \<and>
         map_option (\<lambda>p. px (mVelocity p)) (physical e') =
           map_option (\<lambda>p. px (mVelocity p)) (physical e) \<and>
         map_option mGravityAffected (physical e') = map_option mGravityAffected (physical e) \<and>
         map_option mCanStepUpStairs (physical e') = map_option mCanStepUpStairs (physical e) \<and>
         (position e' = None \<longleftrightarrow> position e = None) \<and>
         (physical e = None \<or> position e = None \<or> boundingBox e = None \<or> \<not> active e
            \<longrightarrow> e' = e))
     [walker, walker\<lparr>active := False\<rparr>]
     [walker\<lparr>position := Some \<lparr>px = 12, py = 10\<rparr>, collidedWithWorld := True\<rparr>,
      walker\<lparr>active := False\<rparr>]"
proof -
  have u: "update room [walker, walker\<lparr>active := False\<rparr>] =
     Some [walker\<lparr>position := Some \<lparr>px = 12, py = 10\<rparr>, collidedWithWorld := True\<rparr>,
           walker\<lparr>active := False\<rparr>]"
    by (simp add: example_defs)
  show ?thesis
    using u update_frame [OF u] by blast
qed

text \<open>
  C9. The flag that the simulation step passes to the vertical resolver is the
  \<open>gravityAffected\<close> trait of the entity: when the entity moves up and some iteration of
  the vertical resolver finds the ceiling, \<open>velocity.y\<close> is 1.0 after the tick for an entity
  affected by gravity and 0.0 for an entity not affected by gravity.
\<close>

theorem ceiling_hit_velocity:
  fixes ck phys pos rect stepsX stepsY k
  defines "posH \<equiv> (if stepsX \<noteq> 0 then
                      applyHorizontalMovement ck (toWorldSpace rect pos) pos stepsX
                        (mCanStepUpStairs phys)
                    else pos)"
  defines "vyG \<equiv> (if mGravityAffected phys then
                     applyGravity ck (toWorldSpace rect posH) (py (mVelocity phys))
                   else py (mVelocity phys))"
  assumes "static_cast_int16 (px (mVelocity phys)) = Some stepsX"
    and "static_cast_int16 vyG = Some stepsY"
    and "sint stepsY < 0"
    and "k < nat \<bar>sint stepsY\<bar>"
    and "isTouchingCeiling ck (offsetBox (toWorldSpace rect posH) 0 (- int k))"
  shows "\<exists>phys' pos' c. updateEntity ck phys pos rect = Some (phys', pos', c) \<and>
           (pos', py (mVelocity phys')) =
              applyVerticalMovement ck (toWorldSpace rect posH) posH vyG stepsY
                (mGravityAffected phys) \<and>
           py (mVelocity phys') = (if mGravityAffected phys then 1 else 0)"
proof -
  have nz: "stepsY \<noteq> 0"
    using assms(5) by auto
  have c: "verticalContact ck (0 < sint stepsY)
             (offsetBox (toWorldSpace rect posH) 0
                (int k * (if 0 < sint stepsY then 1 else - 1)))"
    using assms(5,7) by (simp add: verticalContact_def)
  define V where
    "V = applyVerticalMovement ck (toWorldSpace rect posH) posH vyG stepsY (mGravityAffected phys)"
  have s: "snd V = (if mGravityAffected phys then 1 else 0)"
    unfolding V_def applyVerticalMovement_def
    using verticalLoop_some_contact [OF assms(6) c, of "mGravityAffected phys" vyG posH] assms(5)
    by simp
  have u: "updateEntity ck phys pos rect =
     Some (phys\<lparr>mVelocity := (mVelocity phys)\<lparr>py := snd V\<rparr>\<rparr>, fst V,
           fst V \<noteq> offsetPos pos (sint stepsX) (sint stepsY))"
    using updateEntity_Some [of phys stepsX ck rect pos stepsY] assms(3,4) nz
    unfolding posH_def vyG_def V_def
    by simp
  have "(fst V, py (mVelocity (phys\<lparr>mVelocity := (mVelocity phys)\<lparr>py := snd V\<rparr>\<rparr>))) = V"
    by simp
  moreover have "py (mVelocity (phys\<lparr>mVelocity := (mVelocity phys)\<lparr>py := snd V\<rparr>\<rparr>)) =
      (if mGravityAffected phys then 1 else 0)"
    using s by simp
  ultimately show ?thesis
    using u unfolding V_def by blast
qed

theorem ceiling_hit_velocity_witness:
  "updateEntity room jumper \<lparr>px = 10, py = 9\<rparr> unitBox =
     Some (jumper\<lparr>mVelocity := \<lparr>px = 0, py = 1\<rparr>\<rparr>, \<lparr>px = 10, py = 8\<rparr>, True) \<and>
   updateEntity room floater \<lparr>px = 10, py = 9\<rparr> unitBox =
     Some (floater\<lparr>mVelocity := \<lparr>px = 0, py = 0\<rparr>\<rparr>, \<lparr>px = 10, py = 8\<rparr>, True) \<and>
   isTouchingCeiling room (offsetBox (toWorldSpace unitBox \<lparr>px = 10, py = 9\<rparr>) 0 (- 1)) \<and>
   (\<exists>phys' pos' c. updateEntity room jumper \<lparr>px = 10, py = 9\<rparr> unitBox = Some (phys', pos', c) \<and>
      py (mVelocity phys') = 1) \<and>
   (\<exists>phys' pos' c. updateEntity room floater \<lparr>px = 10, py = 9\<rparr> unitBox = Some (phys', pos', c) \<and>
      py (mVelocity phys') = 0)"
proof (intro conjI)
  show "updateEntity room jumper \<lparr>px = 10, py = 9\<rparr> unitBox =
     Some (jumper\<lparr>mVelocity := \<lparr>px = 0, py = 1\<rparr>\<rparr>, \<lparr>px = 10, py = 8\<rparr>, True)"
    by (simp add: example_defs)
  show "updateEntity room floater \<lparr>px = 10, py = 9\<rparr> unitBox =
     Some (floater\<lparr>mVelocity := \<lparr>px = 0, py = 0\<rparr>\<rparr>, \<lparr>px = 10, py = 8\<rparr>, True)"
    by (simp add: example_defs)
  show "isTouchingCeiling room (offsetBox (toWorldSpace unitBox \<lparr>px = 10, py = 9\<rparr>) 0 (- 1))"
    by (simp add: example_defs)
  show "\<exists>phys' pos' c. updateEntity room jumper \<lparr>px = 10, py = 9\<rparr> unitBox = Some (phys', pos', c) \<and>
      py (mVelocity phys') = 1"
    using ceiling_hit_velocity [where ck = room and phys = jumper and pos = "\<lparr>px = 10, py = 9\<rparr>"
        and rect = unitBox and stepsX = 0 and stepsY = "- 2" and k = 1]
    by (simp add: jumper_def room_def unitBox_def static_cast_int16_def applyGravity_def
        toWorldSpace_def offsetBox_def) blast
  show "\<exists>phys' pos' c. updateEntity room floater \<lparr>px = 10, py = 9\<rparr> unitBox = Some (phys', pos', c) \<and>
      py (mVelocity phys') = 0"
    using ceiling_hit_velocity [where ck = room and phys = floater and pos = "\<lparr>px = 10, py = 9\<rparr>"
        and rect = unitBox and stepsX = 0 and stepsY = "- 2" and k = 1]
    by (simp add: floater_def room_def unitBox_def static_cast_int16_def applyGravity_def
        toWorldSpace_def offsetBox_def) blast
qed

end
